theory Spec2Isabelle
  imports Main "HOL-Library.Log_Nat"
begin

section \<open>TuneForge: the Song, Playlist and User models\<close>

text \<open>
  A shallow embedding of the instance methods of \<^verbatim>\<open>models/Song.js\<close>,
  \<^verbatim>\<open>models/Playlist.js\<close> and \<^verbatim>\<open>models/User.js\<close>.

  Conventions.
  \<^item> An ObjectId is a natural number. The methods compare ids by their texts
    (\<^verbatim>\<open>a.toString() === b.toString()\<close>); the texts are modelled below (\<open>jsString\<close>,
    \<open>idArg\<close>). Mongoose's \<^verbatim>\<open>indexOf\<close> casts its argument and compares ids by value.
  \<^item> \<^verbatim>\<open>new Date()\<close> is an argument \<open>now\<close> of the method.
  \<^item> A duration is a whole number of seconds. An order key is a JavaScript Number with
    an integer value; \<^verbatim>\<open>maxOrder + 1\<close> is rounded as a double is (\<open>toDouble\<close>).
  \<^item> Only the fields the methods below read or write are kept in the records.
  \<^item> A method mutates \<^verbatim>\<open>this\<close>; the model takes the document and returns the new one.
  \<^item> The id arguments of \<open>removeSong\<close>, \<open>reorderSongs\<close>, \<open>addCollaborator\<close> and of the
    toggles are ObjectIds or their \<^verbatim>\<open>toString()\<close> texts.
\<close>

type_synonym objectId = nat
type_synonym date = nat

subsection \<open>JavaScript helpers\<close>

text \<open>The values a permission method returns: a boolean, or \<^verbatim>\<open>undefined\<close>.\<close>

datatype jsval = JBool bool | JUndefined

text \<open>What \<^verbatim>\<open>if (v)\<close> and \<^verbatim>\<open>!v\<close> see of a value.\<close>

fun truthy :: "jsval \<Rightarrow> bool" where
  "truthy (JBool b) = b"
| "truthy JUndefined = False"

text \<open>
  What a method can throw. \<open>TypeError\<close> is \<^verbatim>\<open>x.toString()\<close> on \<^verbatim>\<open>null\<close> or
  \<^verbatim>\<open>undefined\<close>; \<open>AlreadyExists\<close> is
  \<^verbatim>\<open>new Error('Song already exists in playlist')\<close>.
\<close>

datatype error = TypeError | AlreadyExists

text \<open>
  What \<^verbatim>\<open>toString()\<close> gives. For an ObjectId, and for the id string that the session
  keeps, it is the text of the id: 24 hexadecimal digits in lower case. For a populated
  path, which holds the referenced document in place of its id, Mongoose prints the
  whole document; that text is never the text of an id.
\<close>

datatype jsString = IdText objectId | InspectText objectId

text \<open>
  How a route loaded a playlist. \<^verbatim>\<open>Playlist.findById(id)\<close> alone leaves \<^verbatim>\<open>createdBy\<close>
  and \<^verbatim>\<open>collaborators.user\<close> as the stored ObjectIds. The detail routes
  (\<^verbatim>\<open>GET /:id\<close>, and \<^verbatim>\<open>GET /playlists/:id\<close> of the API) chain
  \<^verbatim>\<open>.populate('createdBy', ...)\<close> and \<^verbatim>\<open>.populate('collaborators.user', ...)\<close>: both
  paths hold User documents then.
\<close>

datatype loaded = Stored | Populated

fun refText :: "loaded \<Rightarrow> objectId \<Rightarrow> jsString" where
  "refText Stored i = IdText i"
| "refText Populated i = InspectText i"

text \<open>
  What a caller passes as a song id. \<open>Canonical i\<close> is the ObjectId \<open>i\<close> or its
  \<^verbatim>\<open>toString()\<close> text. \<open>Respelled i\<close> is another string that Mongoose casts to \<open>i\<close>, such
  as the same digits in upper case: \<^verbatim>\<open>Song.findById\<close> and \<^verbatim>\<open>push\<close> take it for \<open>i\<close>,
  and \<^verbatim>\<open>===\<close> on the texts does not. A string that is no id at all is not modelled.
\<close>

datatype idArg = Canonical objectId | Respelled objectId

fun castId :: "idArg \<Rightarrow> objectId" where
  "castId (Canonical i) = i"
| "castId (Respelled i) = i"

text \<open>\<^verbatim>\<open>s.song.toString() === songId.toString()\<close> for a stored id and an argument.\<close>

fun sameText :: "objectId \<Rightarrow> idArg \<Rightarrow> bool" where
  "sameText i (Canonical j) = (i = j)"
| "sameText i (Respelled j) = False"

text \<open>
  The double nearest to an integer, ties to the even significand: below \<open>2^53\<close> in
  magnitude every integer is a double; from there on the doubles are the multiples of
  \<open>2 ^ (k - 53)\<close>, for an integer of \<open>k\<close> binary digits (its \<open>bitlen\<close>). (The overflow to
  \<^verbatim>\<open>Infinity\<close>, beyond \<open>2^1024\<close>, is left out.)
\<close>

definition toDouble :: "int \<Rightarrow> int" where
  "toDouble n =
     (if \<bar>n\<bar> < 2 ^ 53 then n
      else (let q = 2 ^ nat (bitlen \<bar>n\<bar> - 53);
                lo = (n div q) * q
            in if 2 * (n - lo) < q then lo
               else if q < 2 * (n - lo) then lo + q
               else if even (n div q) then lo else lo + q))"

text \<open>\<^verbatim>\<open>xs.indexOf(x)\<close>: the first index of \<open>x\<close>, or \<open>-1\<close>.\<close>

fun indexOf :: "'a list \<Rightarrow> 'a \<Rightarrow> int" where
  "indexOf [] x = -1"
| "indexOf (y # ys) x =
     (if y = x then 0
      else (let i = indexOf ys x in if i > -1 then i + 1 else -1))"

text \<open>\<^verbatim>\<open>xs.splice(i, 1)\<close> for an index \<open>i > -1\<close>: the element at \<open>i\<close> is removed.\<close>

definition splice1 :: "'a list \<Rightarrow> int \<Rightarrow> 'a list" where
  "splice1 xs i = take (nat i) xs @ drop (nat i + 1) xs"

text \<open>
  \<^verbatim>\<open>Math.max(...xs)\<close> on a list that is not empty (the only call is guarded by
  \<^verbatim>\<open>this.songs.length > 0\<close>).
\<close>

fun mathMax :: "int list \<Rightarrow> int" where
  "mathMax [] = undefined"
| "mathMax [x] = x"
| "mathMax (x # y # ys) = max x (mathMax (y # ys))"

subsection \<open>User: the listening history\<close>

record historyEntry =
  song :: objectId
  playedAt :: date
  duration :: int

record User =
  listeningHistory :: "historyEntry list"

text \<open>
  \<^verbatim>\<open>addToHistory(songId, duration)\<close>: \<^verbatim>\<open>unshift\<close> the entry, then keep
  \<^verbatim>\<open>slice(0, 100)\<close> when there are more than 100.
\<close>

definition addToHistory :: "date \<Rightarrow> User \<Rightarrow> objectId \<Rightarrow> int \<Rightarrow> User" where
  "addToHistory now u songId dur =
     (let h = \<lparr>historyEntry.song = songId, playedAt = now, historyEntry.duration = dur\<rparr>
                # listeningHistory u
      in u\<lparr>listeningHistory := (if length h > 100 then take 100 h else h)\<rparr>)"

text \<open>A sequence of calls, each with its own clock value: (now, songId, duration).\<close>

definition addAllToHistory :: "User \<Rightarrow> (date \<times> objectId \<times> int) list \<Rightarrow> User" where
  "addAllToHistory u calls = foldl (\<lambda>u (now, songId, dur). addToHistory now u songId dur) u calls"

subsection \<open>Song: likes and dislikes\<close>

record Song =
  oid :: objectId
  duration :: int
  likes :: "objectId list"
  dislikes :: "objectId list"

definition toggleLike :: "Song \<Rightarrow> objectId \<Rightarrow> Song" where
  "toggleLike s userId =
     (let likeIndex = indexOf (likes s) userId;
          dislikeIndex = indexOf (dislikes s) userId
      in if likeIndex > -1 then s\<lparr>likes := splice1 (likes s) likeIndex\<rparr>
         else (let s1 = s\<lparr>likes := likes s @ [userId]\<rparr>
               in if dislikeIndex > -1
                  then s1\<lparr>dislikes := splice1 (dislikes s1) dislikeIndex\<rparr>
                  else s1))"

definition toggleDislike :: "Song \<Rightarrow> objectId \<Rightarrow> Song" where
  "toggleDislike s userId =
     (let likeIndex = indexOf (likes s) userId;
          dislikeIndex = indexOf (dislikes s) userId
      in if dislikeIndex > -1 then s\<lparr>dislikes := splice1 (dislikes s) dislikeIndex\<rparr>
         else (let s1 = s\<lparr>dislikes := dislikes s @ [userId]\<rparr>
               in if likeIndex > -1
                  then s1\<lparr>likes := splice1 (likes s1) likeIndex\<rparr>
                  else s1))"

text \<open>A sequence of toggle calls on one song, by any users.\<close>

datatype toggle = Like objectId | Dislike objectId

fun applyToggle :: "Song \<Rightarrow> toggle \<Rightarrow> Song" where
  "applyToggle s (Like u) = toggleLike s u"
| "applyToggle s (Dislike u) = toggleDislike s u"

definition applyToggles :: "Song \<Rightarrow> toggle list \<Rightarrow> Song" where
  "applyToggles s ts = foldl applyToggle s ts"

subsection \<open>Playlist\<close>

datatype role = editor | viewer

record collaborator =
  user :: objectId
  role :: role
  addedAt :: date

record songEntry =
  song :: objectId
  addedAt :: date
  addedBy :: objectId
  order :: int

record Playlist =
  isPublic :: bool
  isCollaborative :: bool
  createdBy :: objectId
  collaborators :: "collaborator list"
  songs :: "songEntry list"
  duration :: int

text \<open>
  The \<^verbatim>\<open>pre('save')\<close> hook. \<open>db\<close> is the Song collection;
  \<^verbatim>\<open>Song.find({ _id: { $in: songIds } })\<close> gives the documents whose id is among
  \<open>songIds\<close>, and \<^verbatim>\<open>reduce\<close> adds their durations up from 0.
\<close>

definition preSave :: "Song list \<Rightarrow> Playlist \<Rightarrow> Playlist" where
  "preSave db p =
     (if length (songs p) > 0
      then (let songIds = map songEntry.song (songs p);
                found = filter (\<lambda>s. oid s \<in> set songIds) db
            in p\<lparr>Playlist.duration := foldl (\<lambda>total s. total + Song.duration s) 0 found\<rparr>)
      else p)"

text \<open>
  \<^verbatim>\<open>this.save()\<close>: the hook runs and the document is stored. The outcome of a method
  is a result: \<open>Inr\<close> the saved document, or \<open>Inl\<close> what was thrown together with the
  document as the method left it at the throw.
\<close>

definition save :: "Song list \<Rightarrow> Playlist \<Rightarrow> (error \<times> Playlist) + Playlist" where
  "save db p = Inr (preSave db p)"

text \<open>
  \<^verbatim>\<open>addSong(songId, userId)\<close>, for any spelling of the song id: the guard compares the
  texts, the pushed entry holds the id that the spelling casts to, and its order key is
  the double sum \<^verbatim>\<open>maxOrder + 1\<close>.
\<close>

definition addSongArg ::
  "Song list \<Rightarrow> date \<Rightarrow> Playlist \<Rightarrow> idArg \<Rightarrow> objectId \<Rightarrow> (error \<times> Playlist) + Playlist" where
  "addSongArg db now p songId userId =
     (case find (\<lambda>s. sameText (songEntry.song s) songId) (songs p) of
        Some existingSong \<Rightarrow> Inl (AlreadyExists, p)
      | None \<Rightarrow>
          (let maxOrder = (if length (songs p) > 0 then mathMax (map order (songs p)) else 0)
           in save db (p\<lparr>songs := songs p @
                [\<lparr>songEntry.song = castId songId, songEntry.addedAt = now, addedBy = userId,
                  order = toDouble (maxOrder + 1)\<rparr>]\<rparr>)))"

text \<open>\<open>addSong\<close> with the song id as an ObjectId or its \<^verbatim>\<open>toString()\<close> text.\<close>

definition addSong ::
  "Song list \<Rightarrow> date \<Rightarrow> Playlist \<Rightarrow> objectId \<Rightarrow> objectId \<Rightarrow> (error \<times> Playlist) + Playlist" where
  "addSong db now p songId userId = addSongArg db now p (Canonical songId) userId"

definition removeSong :: "Song list \<Rightarrow> Playlist \<Rightarrow> objectId \<Rightarrow> (error \<times> Playlist) + Playlist" where
  "removeSong db p songId =
     save db (p\<lparr>songs := filter (\<lambda>s. songEntry.song s \<noteq> songId) (songs p)\<rparr>)"

text \<open>
  One step of the \<^verbatim>\<open>forEach\<close> of \<^verbatim>\<open>reorderSongs\<close>: \<^verbatim>\<open>find\<close> gives the first
  entry of the song, and its order key is overwritten.
\<close>

fun setOrder :: "songEntry list \<Rightarrow> objectId \<times> int \<Rightarrow> songEntry list" where
  "setOrder [] (songId, newOrder) = []"
| "setOrder (s # ss) (songId, newOrder) =
     (if songEntry.song s = songId then s\<lparr>order := newOrder\<rparr> # ss
      else s # setOrder ss (songId, newOrder))"

text \<open>
  \<^verbatim>\<open>this.songs.sort((a, b) => a.order - b.order)\<close> is a stable ascending sort by the
  order key, as \<open>sort_key\<close> is.
\<close>

definition reorderSongs ::
  "Song list \<Rightarrow> Playlist \<Rightarrow> (objectId \<times> int) list \<Rightarrow> (error \<times> Playlist) + Playlist" where
  "reorderSongs db p songOrders =
     save db (p\<lparr>songs := sort_key order (foldl setOrder (songs p) songOrders)\<rparr>)"



text \<open>
  The permission methods. The routes call them with \<^verbatim>\<open>req.session.user?.id\<close>, which
  is \<^verbatim>\<open>undefined\<close> for an anonymous visitor: the argument is \<open>None\<close> then, and
  \<^verbatim>\<open>userId.toString()\<close> throws a TypeError. A user id that is present is the id string
  of the session. The first argument says how the route loaded the playlist:
  \<^verbatim>\<open>this.createdBy.toString()\<close> and \<^verbatim>\<open>c.user.toString()\<close> are id texts on a stored
  document and document texts on a populated one.
\<close>

definition canEditOn :: "loaded \<Rightarrow> Playlist \<Rightarrow> objectId option \<Rightarrow> error + jsval" where
  "canEditOn l p userId =
     (case userId of
        None \<Rightarrow> Inl TypeError
      | Some u \<Rightarrow>
          if refText l (createdBy p) = IdText u then Inr (JBool True)
          else if \<not> isCollaborative p then Inr (JBool False)
          else (case find (\<lambda>c. refText l (user c) = IdText u) (collaborators p) of
                  None \<Rightarrow> Inr JUndefined
                | Some c \<Rightarrow> Inr (JBool (role c = editor))))"

definition canViewOn :: "loaded \<Rightarrow> Playlist \<Rightarrow> objectId option \<Rightarrow> error + jsval" where
  "canViewOn l p userId =
     (if isPublic p then Inr (JBool True)
      else (case userId of
              None \<Rightarrow> Inl TypeError
            | Some u \<Rightarrow>
                if refText l (createdBy p) = IdText u then Inr (JBool True)
                else Inr (JBool (find (\<lambda>c. refText l (user c) = IdText u) (collaborators p)
                                  \<noteq> None))))"

text \<open>
  The two methods on a playlist loaded by \<^verbatim>\<open>findById\<close> alone, as the edit, song,
  reorder and play routes call them.
\<close>

definition canEdit :: "Playlist \<Rightarrow> objectId option \<Rightarrow> error + jsval" where
  "canEdit p userId = canEditOn Stored p userId"

definition canView :: "Playlist \<Rightarrow> objectId option \<Rightarrow> error + jsval" where
  "canView p userId = canViewOn Stored p userId"

subsection \<open>Specification-side definitions and example documents\<close>

text \<open>
  The likes and dislikes of a song are sets of user ids, kept in arrays: no id is
  listed twice in either array, and no id is in both.
\<close>

definition exclusive :: "Song \<Rightarrow> bool" where
  "exclusive s =
     (distinct (likes s) \<and> distinct (dislikes s) \<and> set (likes s) \<inter> set (dislikes s) = {})"

text \<open>
  The reordering as the specification words it: an entry whose song is mentioned takes
  the order key assigned to it (the last one, when the caller mentions a song more than
  once), the other entries keep theirs, and the list is then sorted by order key,
  ascending.
\<close>

definition assign :: "(objectId \<times> int) list \<Rightarrow> songEntry \<Rightarrow> songEntry" where
  "assign songOrders s =
     (case map_of (rev songOrders) (songEntry.song s) of
        None \<Rightarrow> s
      | Some newOrder \<Rightarrow> s\<lparr>order := newOrder\<rparr>)"


text \<open>The history entry that a call (now, songId, duration) of \<open>addToHistory\<close> creates.\<close>

fun entryOf :: "date \<times> objectId \<times> int \<Rightarrow> historyEntry" where
  "entryOf (now, songId, dur) =
     \<lparr>historyEntry.song = songId, playedAt = now, historyEntry.duration = dur\<rparr>"

text \<open>A playlist of user 10 with the songs 1, 2, 3 at the order keys 1, 2, 3.\<close>

definition threeSongs :: "Playlist" where
  "threeSongs = \<lparr>isPublic = True, isCollaborative = False, createdBy = 10, collaborators = [],
     songs = [\<lparr>songEntry.song = 1, songEntry.addedAt = 100, addedBy = 10, order = 1\<rparr>,
              \<lparr>songEntry.song = 2, songEntry.addedAt = 101, addedBy = 10, order = 2\<rparr>,
              \<lparr>songEntry.song = 3, songEntry.addedAt = 102, addedBy = 10, order = 3\<rparr>],
     duration = 0\<rparr>"

text \<open>A new, empty playlist of user 1, and a Song collection with one song of 200 seconds.\<close>

definition ownedPlaylist :: "Playlist" where
  "ownedPlaylist = \<lparr>isPublic = True, isCollaborative = True, createdBy = 1, collaborators = [],
     songs = [], duration = 0\<rparr>"

definition oneSongDb :: "Song list" where
  "oneSongDb = [\<lparr>oid = 5, Song.duration = 200, likes = [], dislikes = []\<rparr>]"

text \<open>A private collaborative playlist of user 1 with an editor 2 and a viewer 3.\<close>

definition sharedPlaylist :: "Playlist" where
  "sharedPlaylist = \<lparr>isPublic = False, isCollaborative = True, createdBy = 1,
     collaborators = [\<lparr>user = 2, role = editor, collaborator.addedAt = 50\<rparr>,
                      \<lparr>user = 3, role = viewer, collaborator.addedAt = 51\<rparr>],
     songs = [], duration = 0\<rparr>"



text \<open>Songs whose likes array lists user 7 more than once.\<close>

definition likedTwice :: "Song" where
  "likedTwice = \<lparr>oid = 5, Song.duration = 200, likes = [7, 9, 7], dislikes = []\<rparr>"

definition likedTwiceOnly :: "Song" where
  "likedTwiceOnly = \<lparr>oid = 5, Song.duration = 200, likes = [7, 7], dislikes = []\<rparr>"

definition likedThrice :: "Song" where
  "likedThrice = \<lparr>oid = 5, Song.duration = 200, likes = [7, 7, 7], dislikes = []\<rparr>"

text \<open>A song that user 7 likes and user 8 dislikes.\<close>

definition someSong :: "Song" where
  "someSong = \<lparr>oid = 5, Song.duration = 200, likes = [7], dislikes = [8]\<rparr>"

section \<open>Helper lemmas\<close>

lemma indexOf_ge: "- 1 \<le> indexOf xs x"
  by (induction xs) (auto simp: Let_def)

lemma indexOf_found: "(indexOf xs x > - 1) = (x \<in> set xs)"
  by (induction xs) (auto simp: Let_def)

lemma splice1_indexOf: "x \<in> set xs \<Longrightarrow> splice1 xs (indexOf xs x) = remove1 x xs"
proof (induction xs)
  case Nil
  then show ?case by simp
next
  case (Cons y ys)
  show ?case
  proof (cases "y = x")
    case True
    then show ?thesis by (simp add: splice1_def)
  next
    case False
    with Cons.prems have mem: "x \<in> set ys" by simp
    then have pos: "indexOf ys x > - 1" by (simp add: indexOf_found)
    then have nn: "0 \<le> indexOf ys x" by simp
    have "splice1 ys (indexOf ys x) = remove1 x ys" using Cons.IH mem by simp
    then show ?thesis using False pos nn
      by (simp add: splice1_def Let_def nat_add_distrib)
  qed
qed

subsection \<open>Song\<close>

lemma toggleLike_likes:
  "likes (toggleLike s u) = (if u \<in> set (likes s) then remove1 u (likes s) else likes s @ [u])"
  by (simp add: toggleLike_def Let_def indexOf_found splice1_indexOf)

lemma toggleLike_dislikes:
  "dislikes (toggleLike s u) =
     (if u \<in> set (likes s) then dislikes s else remove1 u (dislikes s))"
  by (simp add: toggleLike_def Let_def indexOf_found splice1_indexOf remove1_idem)

lemma toggleDislike_dislikes:
  "dislikes (toggleDislike s u) =
     (if u \<in> set (dislikes s) then remove1 u (dislikes s) else dislikes s @ [u])"
  by (simp add: toggleDislike_def Let_def indexOf_found splice1_indexOf)

lemma toggleDislike_likes:
  "likes (toggleDislike s u) =
     (if u \<in> set (dislikes s) then likes s else remove1 u (likes s))"
  by (simp add: toggleDislike_def Let_def indexOf_found splice1_indexOf remove1_idem)

text \<open>A new song has no likes and no dislikes (the schema's defaults).\<close>

lemma new_song_exclusive: "exclusive (s\<lparr>likes := [], dislikes := []\<rparr>)"
  by (simp add: exclusive_def)

lemma toggleLike_exclusive: "exclusive s \<Longrightarrow> exclusive (toggleLike s u)"
  by (auto simp: exclusive_def toggleLike_likes toggleLike_dislikes)

lemma toggleDislike_exclusive: "exclusive s \<Longrightarrow> exclusive (toggleDislike s u)"
  by (auto simp: exclusive_def toggleDislike_likes toggleDislike_dislikes)

lemma applyToggles_exclusive: "exclusive s \<Longrightarrow> exclusive (applyToggles s ts)"
  unfolding applyToggles_def
proof (induction ts arbitrary: s)
  case Nil
  then show ?case by simp
next
  case (Cons t ts)
  have "exclusive (applyToggle s t)"
    using Cons.prems by (cases t) (simp_all add: toggleLike_exclusive toggleDislike_exclusive)
  then show ?case using Cons.IH by simp
qed

lemma count_remove1_same: "count_list (remove1 x xs) x = count_list xs x - 1"
  by (induction xs) auto

lemma in_set_count_list: "(x \<in> set xs) = (0 < count_list xs x)"
  using count_list_0_iff [of xs x] by auto

lemma count_list_toggleLike:
  "count_list (likes (toggleLike s u)) u =
     (if 0 < count_list (likes s) u then count_list (likes s) u - 1 else 1)"
  by (simp add: toggleLike_likes in_set_count_list count_remove1_same)

lemma like_then_dislike:
  "exclusive s \<Longrightarrow>
     u \<in> set (dislikes (toggleDislike (toggleLike s u) u)) \<and>
     u \<notin> set (likes (toggleDislike (toggleLike s u) u))"
  by (auto simp: exclusive_def toggleLike_likes toggleLike_dislikes
        toggleDislike_likes toggleDislike_dislikes)

subsection \<open>Playlist\<close>

lemma songs_preSave: "songs (preSave db p) = songs p"
  by (simp add: preSave_def Let_def)







text \<open>The methods on the argument forms that the routes of the repository pass.\<close>

lemma addSong_canonical:
  "addSong db now p songId userId =
     (case find (\<lambda>s. songEntry.song s = songId) (songs p) of
        Some existingSong \<Rightarrow> Inl (AlreadyExists, p)
      | None \<Rightarrow>
          save db (p\<lparr>songs := songs p @
            [\<lparr>songEntry.song = songId, songEntry.addedAt = now, addedBy = userId,
              order = toDouble ((if length (songs p) > 0 then mathMax (map order (songs p))
                                 else 0) + 1)\<rparr>]\<rparr>))"
  by (simp add: addSong_def addSongArg_def Let_def split: option.splits)

lemma canEdit_stored:
  "canEdit p userId =
     (case userId of
        None \<Rightarrow> Inl TypeError
      | Some u \<Rightarrow>
          if createdBy p = u then Inr (JBool True)
          else if \<not> isCollaborative p then Inr (JBool False)
          else (case find (\<lambda>c. user c = u) (collaborators p) of
                  None \<Rightarrow> Inr JUndefined
                | Some c \<Rightarrow> Inr (JBool (role c = editor))))"
  by (simp add: canEdit_def canEditOn_def split: option.splits)

lemma canView_stored:
  "canView p userId =
     (if isPublic p then Inr (JBool True)
      else (case userId of
              None \<Rightarrow> Inl TypeError
            | Some u \<Rightarrow>
                if createdBy p = u then Inr (JBool True)
                else Inr (JBool (find (\<lambda>c. user c = u) (collaborators p) \<noteq> None))))"
  by (simp add: canView_def canViewOn_def split: option.splits)

text \<open>
  On a populated playlist no id text equals the text of \<^verbatim>\<open>createdBy\<close> or of a
  collaborator's \<^verbatim>\<open>user\<close>: \<open>canView\<close> of a private playlist refuses every user, the owner
  and the collaborators too.
\<close>

lemma find_never: "find (\<lambda>c. False) cs = None"
  by (induction cs) simp_all

lemma canViewOn_populated_private:
  "canViewOn Populated (p\<lparr>isPublic := False\<rparr>) (Some u) = Inr (JBool False)"
  by (simp add: canViewOn_def find_never)

text \<open>With at least one member, the hook stores the sum over the members found.\<close>

lemma duration_preSave:
  "songs p \<noteq> [] \<Longrightarrow>
     Playlist.duration (preSave db p) =
       sum_list (map Song.duration (filter (\<lambda>s. oid s \<in> songEntry.song ` set (songs p)) db))"
proof -
  have fl: "foldl (\<lambda>total s. total + Song.duration s) a xs = a + sum_list (map Song.duration xs)"
    for a :: int and xs :: "Song list"
    by (induction xs arbitrary: a) simp_all
  assume "songs p \<noteq> []"
  then show ?thesis by (simp add: preSave_def Let_def fl)
qed

lemma find_None_song:
  "(find (\<lambda>s. songEntry.song s = k) ss = None) = (k \<notin> songEntry.song ` set ss)"
  by (auto simp: find_None_iff)



lemma setOrder_map:
  "distinct (map songEntry.song ss) \<Longrightarrow>
     setOrder ss (k, n) = map (\<lambda>s. if songEntry.song s = k then s\<lparr>order := n\<rparr> else s) ss"
proof (induction ss)
  case Nil
  then show ?case by simp
next
  case (Cons s ss)
  show ?case
  proof (cases "songEntry.song s = k")
    case True
    with Cons.prems have "k \<notin> songEntry.song ` set ss" by simp
    then have "\<forall>x \<in> set ss. songEntry.song x \<noteq> k" by blast
    then have "map (\<lambda>s. if songEntry.song s = k then s\<lparr>order := n\<rparr> else s) ss = ss"
      by (simp add: map_idI)
    with True show ?thesis by simp
  next
    case False
    with Cons show ?thesis by simp
  qed
qed

lemma song_assign: "songEntry.song (assign as s) = songEntry.song s"
  by (simp add: assign_def split: option.splits)

lemma foldl_setOrder:
  "distinct (map songEntry.song ss) \<Longrightarrow> foldl setOrder ss as = map (assign as) ss"
proof (induction as rule: rev_induct)
  case Nil
  then show ?case by (simp add: assign_def)
next
  case (snoc a as)
  obtain k n where a: "a = (k, n)" by (cases a)
  have d: "distinct (map songEntry.song (map (assign as) ss))"
    using snoc.prems by (simp add: o_def song_assign)
  have "foldl setOrder ss (as @ [a]) = setOrder (map (assign as) ss) (k, n)"
    using snoc a by simp
  also have "\<dots> =
      map (\<lambda>s. if songEntry.song s = k then s\<lparr>order := n\<rparr> else s) (map (assign as) ss)"
    using d by (rule setOrder_map)
  also have "\<dots> = map (assign (as @ [a])) ss"
    by (auto simp: a assign_def song_assign split: option.splits)
  finally show ?case .
qed

text \<open>
  A call of a membership method with ids in canonical form, running alone, lists no
  song twice when the playlist did not before. A respelled id of a member passes the
  guard of \<open>addSong\<close>, and the song is then listed twice.
\<close>

lemma addSong_distinct:
  assumes "distinct (map songEntry.song (songs p))"
    and "addSong db now p songId userId = Inr p'"
  shows "distinct (map songEntry.song (songs p'))"
proof (cases "find (\<lambda>s. songEntry.song s = songId) (songs p)")
  case None
  then have "songId \<notin> songEntry.song ` set (songs p)" by (simp add: find_None_song)
  moreover from None assms(2)
  have "map songEntry.song (songs p') = map songEntry.song (songs p) @ [songId]"
    by (auto simp: addSong_canonical save_def songs_preSave)
  ultimately show ?thesis using assms(1) by simp
next
  case (Some e)
  with assms(2) show ?thesis by (simp add: addSong_canonical)
qed

lemma addSongArg_respelled:
  "\<exists>p'. addSongArg db now threeSongs (Respelled 2) 10 = Inr p' \<and>
     map songEntry.song (songs p') = [1, 2, 3, 2]"
  by (simp add: addSongArg_def save_def songs_preSave threeSongs_def)

lemma removeSong_distinct:
  assumes "distinct (map songEntry.song (songs p))"
    and "removeSong db p songId = Inr p'"
  shows "distinct (map songEntry.song (songs p'))"
proof -
  from assms(2) have "songs p' = filter (\<lambda>s. songEntry.song s \<noteq> songId) (songs p)"
    by (auto simp: removeSong_def save_def songs_preSave)
  then show ?thesis using assms(1) by (simp add: distinct_map_filter)
qed

lemma reorderSongs_distinct:
  assumes "distinct (map songEntry.song (songs p))"
    and "reorderSongs db p songOrders = Inr p'"
  shows "distinct (map songEntry.song (songs p'))"
proof -
  have d: "distinct (map songEntry.song (map (assign songOrders) (songs p)))"
    using assms(1) by (simp add: o_def song_assign)
  from assms have "songs p' = sort_key order (map (assign songOrders) (songs p))"
    by (auto simp: reorderSongs_def save_def songs_preSave foldl_setOrder)
  moreover have "distinct (map songEntry.song (sort_key order xs)) = distinct (map songEntry.song xs)"
    for xs :: "songEntry list"
    by (simp only: distinct_map distinct_sort set_sort)
  ultimately show ?thesis using d by simp
qed



lemma find_user_None: "(find (\<lambda>c. user c = u) cs = None) = (u \<notin> user ` set cs)"
  by (auto simp: find_None_iff)

lemma find_user_viewer:
  "u \<in> user ` set cs \<Longrightarrow> \<forall>c \<in> set cs. user c = u \<longrightarrow> role c = viewer \<Longrightarrow>
     \<exists>c. find (\<lambda>c. user c = u) cs = Some c \<and> role c = viewer"
  by (induction cs) auto

subsection \<open>User\<close>

lemma listeningHistory_addToHistory:
  "listeningHistory (addToHistory now u songId dur) =
     take 100 (entryOf (now, songId, dur) # listeningHistory u)"
  by (simp add: addToHistory_def Let_def)

lemma addAll_snoc:
  "addAllToHistory u (calls @ [c]) =
     (case c of (now, songId, dur) \<Rightarrow> addToHistory now (addAllToHistory u calls) songId dur)"
  by (simp add: addAllToHistory_def split: prod.splits)

lemma listeningHistory_addAll:
  "listeningHistory (addAllToHistory (u\<lparr>listeningHistory := []\<rparr>) calls) =
     take 100 (rev (map entryOf calls))"
proof (induction calls rule: rev_induct)
  case Nil
  then show ?case by (simp add: addAllToHistory_def)
next
  case (snoc c calls)
  obtain now songId dur where c: "c = (now, songId, dur)" by (cases c)
  have t: "take 100 (e # take 100 xs) = take 100 (e # xs)" for e :: historyEntry and xs
    by (simp add: take_Cons')
  show ?case
    using snoc by (simp add: c addAll_snoc listeningHistory_addToHistory t del: entryOf.simps)
qed

section \<open>The claims\<close>

subsection \<open>Song\<close>

text \<open>
  Claim C7, as the code has it. \<open>toggleLike\<close> removes one occurrence of the user from the
  likes array, or appends the user. Two calls in a row for the same user bring the user's
  like-membership back to what it was exactly when the likes array does not list the user
  twice; so they do whenever the array lists the user at most once, as a set of user ids
  does.
\<close>

theorem toggleLike_twice:
  "((u \<in> set (likes (toggleLike (toggleLike s u) u))) = (u \<in> set (likes s))) =
     (count_list (likes s) u \<noteq> 2)"
proof -
  define k where "k = count_list (likes s) u"
  have "count_list (likes (toggleLike (toggleLike s u) u)) u =
      (if k = 0 then 0 else if k = 1 then 1 else k - 2)"
    unfolding count_list_toggleLike k_def by simp arith
  then have "(0 < count_list (likes (toggleLike (toggleLike s u) u)) u) = (0 < k) = (k \<noteq> 2)"
    by (simp split: if_splits) arith
  then show ?thesis
    by (simp add: in_set_count_list k_def)
qed

text \<open>
  The claim as it is written fails on a song whose likes array is 7, 9, 7: user 7 is
  among the likers, and after two \<open>toggleLike\<close> calls of user 7 the array is 9 alone.
\<close>

theorem toggleLike_twice_counterexample:
  "7 \<in> set (likes likedTwice) \<and>
   likes (toggleLike (toggleLike likedTwice 7) 7) = [9] \<and>
   7 \<notin> set (likes (toggleLike (toggleLike likedTwice 7) 7))"
  by (simp add: toggleLike_likes likedTwice_def)

text \<open>
  Claim C3, as the code has it. From a song whose likes and dislikes share no id and list
  no id twice, every sequence of \<open>toggleLike\<close> and \<open>toggleDislike\<close> calls, by any users,
  ends in such a song again; and when a user then calls \<open>toggleLike\<close> and after it
  \<open>toggleDislike\<close>, the user is in the dislikes and not in the likes. A new song is such
  a song (\<open>new_song_exclusive\<close>).
\<close>

theorem toggles_keep_likes_dislikes_disjoint:
  assumes "distinct (likes s)" and "distinct (dislikes s)"
    and "set (likes s) \<inter> set (dislikes s) = {}"
  shows "set (likes (applyToggles s ts)) \<inter> set (dislikes (applyToggles s ts)) = {} \<and>
         distinct (likes (applyToggles s ts)) \<and> distinct (dislikes (applyToggles s ts)) \<and>
         u \<in> set (dislikes (toggleDislike (toggleLike (applyToggles s ts) u) u)) \<and>
         u \<notin> set (likes (toggleDislike (toggleLike (applyToggles s ts) u) u))"
proof -
  have "exclusive s" using assms by (simp add: exclusive_def)
  then have e: "exclusive (applyToggles s ts)" by (rule applyToggles_exclusive)
  from like_then_dislike [OF e, of u] e show ?thesis by (simp add: exclusive_def)
qed

theorem toggles_keep_likes_dislikes_disjoint_witness:
  "distinct (likes someSong) \<and> distinct (dislikes someSong) \<and>
   set (likes someSong) \<inter> set (dislikes someSong) = {} \<and>
   set (likes (applyToggles someSong [Like 8, Dislike 7, Like 9]))
     \<inter> set (dislikes (applyToggles someSong [Like 8, Dislike 7, Like 9])) = {} \<and>
   7 \<in> set (dislikes (toggleDislike (toggleLike (applyToggles someSong [Like 8, Dislike 7, Like 9]) 7) 7)) \<and>
   7 \<notin> set (likes (toggleDislike (toggleLike (applyToggles someSong [Like 8, Dislike 7, Like 9]) 7) 7))"
proof -
  have h1: "distinct (likes someSong)" by (simp add: someSong_def)
  have h2: "distinct (dislikes someSong)" by (simp add: someSong_def)
  have h3: "set (likes someSong) \<inter> set (dislikes someSong) = {}" by (simp add: someSong_def)
  show ?thesis
    using h1 h2 h3
      toggles_keep_likes_dislikes_disjoint [OF h1 h2 h3, of "[Like 8, Dislike 7, Like 9]" 7]
    by simp
qed

text \<open>
  The claim as it is written fails on a song whose likes array is 7, 7 and whose dislikes
  array is empty: no id is in both, and after one \<open>toggleDislike\<close> of user 7 the user is in
  both, since one occurrence is spliced out of the likes. On the likes array 7, 7, 7 the
  calls \<open>toggleLike\<close> and then \<open>toggleDislike\<close> of user 7 leave the user in the likes.
\<close>

theorem toggles_keep_likes_dislikes_disjoint_counterexample:
  "set (likes likedTwiceOnly) \<inter> set (dislikes likedTwiceOnly) = {} \<and>
   likes (applyToggles likedTwiceOnly [Dislike 7]) = [7] \<and>
   dislikes (applyToggles likedTwiceOnly [Dislike 7]) = [7] \<and>
   set (likes (applyToggles likedTwiceOnly [Dislike 7]))
     \<inter> set (dislikes (applyToggles likedTwiceOnly [Dislike 7])) = {7} \<and>
   set (likes likedThrice) \<inter> set (dislikes likedThrice) = {} \<and>
   likes (toggleDislike (toggleLike likedThrice 7) 7) = [7]"
  by (simp add: applyToggles_def toggleDislike_likes toggleDislike_dislikes toggleLike_likes
        toggleLike_dislikes likedTwiceOnly_def likedThrice_def)

subsection \<open>User\<close>

text \<open>
  Claim C8. \<open>addToHistory\<close> puts the new entry first and keeps the first 100 entries, so
  the history has at most 100 entries after every call, whatever it held before. From an
  empty history, a sequence of calls leaves the entries of the calls, the latest first,
  cut to 100; after 105 calls there are exactly 100 entries and the first is the entry
  of the last call.
\<close>

theorem addToHistory_bounded_recent_first:
  "listeningHistory (addToHistory now u songId dur) =
     take 100 (entryOf (now, songId, dur) # listeningHistory u) \<and>
   length (listeningHistory (addToHistory now u songId dur)) \<le> 100 \<and>
   listeningHistory (addAllToHistory (u\<lparr>listeningHistory := []\<rparr>) calls) =
     take 100 (rev (map entryOf calls)) \<and>
   (length calls = 105 \<longrightarrow>
      length (listeningHistory (addAllToHistory (u\<lparr>listeningHistory := []\<rparr>) calls)) = 100 \<and>
      hd (listeningHistory (addAllToHistory (u\<lparr>listeningHistory := []\<rparr>) calls)) =
        entryOf (last calls))"
proof (intro conjI impI)
  show "listeningHistory (addToHistory now u songId dur) =
     take 100 (entryOf (now, songId, dur) # listeningHistory u)"
    by (rule listeningHistory_addToHistory)
  then show "length (listeningHistory (addToHistory now u songId dur)) \<le> 100"
    by simp
  show "listeningHistory (addAllToHistory (u\<lparr>listeningHistory := []\<rparr>) calls) =
     take 100 (rev (map entryOf calls))"
    by (rule listeningHistory_addAll)
next
  assume n: "length calls = 105"
  then show "length (listeningHistory (addAllToHistory (u\<lparr>listeningHistory := []\<rparr>) calls)) = 100"
    by (simp add: listeningHistory_addAll)
next
  assume n: "length calls = 105"
  then have ne: "calls \<noteq> []" by auto
  have "hd (take 100 (rev (map entryOf calls))) = hd (rev (map entryOf calls))"
    by simp
  also have "\<dots> = entryOf (last calls)"
    using ne by (simp add: hd_rev last_map)
  finally show "hd (listeningHistory (addAllToHistory (u\<lparr>listeningHistory := []\<rparr>) calls)) =
      entryOf (last calls)"
    by (simp add: listeningHistory_addAll)
qed

theorem addToHistory_bounded_recent_first_witness:
  "length (replicate 104 (0, 1, 30) @ [(9, 2, 45 :: int)]) = 105 \<and>
   length (listeningHistory (addAllToHistory \<lparr>listeningHistory = []\<rparr>
             (replicate 104 (0, 1, 30) @ [(9, 2, 45)]))) = 100 \<and>
   hd (listeningHistory (addAllToHistory \<lparr>listeningHistory = []\<rparr>
             (replicate 104 (0, 1, 30) @ [(9, 2, 45)]))) =
     \<lparr>historyEntry.song = 2, playedAt = 9, historyEntry.duration = 45\<rparr>"
proof -
  have n: "length (replicate 104 (0 :: nat, 1 :: nat, 30 :: int) @ [(9, 2, 45)]) = 105" by simp
  show ?thesis
    using n addToHistory_bounded_recent_first
      [of 0 "\<lparr>listeningHistory = []\<rparr>" 0 0 "replicate 104 (0, 1, 30) @ [(9, 2, 45)]"]
    by simp
qed

subsection \<open>Playlist: membership\<close>




text \<open>
  Claim C10. \<open>removeSong\<close> of a song that is not a member throws nothing: it returns the
  saved playlist, and the membership list of that playlist is the list before the call.
\<close>

theorem removeSong_absent_noop:
  assumes "songId \<notin> songEntry.song ` set (songs p)"
  shows "\<exists>p'. removeSong db p songId = Inr p' \<and> songs p' = songs p"
proof -
  have "filter (\<lambda>s. songEntry.song s \<noteq> songId) (songs p) = songs p"
    using assms by (auto simp: filter_id_conv)
  then show ?thesis by (simp add: removeSong_def save_def songs_preSave)
qed

theorem removeSong_absent_noop_witness:
  "4 \<notin> songEntry.song ` set (songs threeSongs) \<and>
   (\<exists>p'. removeSong oneSongDb threeSongs 4 = Inr p' \<and> songs p' = songs threeSongs)"
proof -
  have h: "4 \<notin> songEntry.song ` set (songs threeSongs)" by (simp add: threeSongs_def)
  show ?thesis using h removeSong_absent_noop [OF h, of oneSongDb] by simp
qed




text \<open>
  Claim C1. The stored duration is recomputed by the save hook only while the playlist
  has at least one member (\<open>duration_preSave\<close>). On the empty playlist of user 1, adding
  song 5 (200 seconds) stores the duration 200; removing it again leaves no member and
  the hook skips the recomputation, so the stored duration is still 200 and not 0.
\<close>

theorem removeSong_last_keeps_duration:
  "addSong oneSongDb 7 ownedPlaylist 5 1 =
     Inr (ownedPlaylist
            \<lparr>songs := [\<lparr>songEntry.song = 5, songEntry.addedAt = 7, addedBy = 1, order = 1\<rparr>],
             Playlist.duration := 200\<rparr>) \<and>
   removeSong oneSongDb
     (ownedPlaylist
        \<lparr>songs := [\<lparr>songEntry.song = 5, songEntry.addedAt = 7, addedBy = 1, order = 1\<rparr>],
         Playlist.duration := 200\<rparr>) 5 =
     Inr (ownedPlaylist\<lparr>songs := [], Playlist.duration := 200\<rparr>)"
  by (simp add: addSong_canonical removeSong_def save_def preSave_def ownedPlaylist_def
        oneSongDb_def toDouble_def)

subsection \<open>Playlist: collaborators and permissions\<close>



text \<open>
  The permission of a user id on a stored playlist: the owner may edit, whatever the
  collaborator list and the two flags are; a user who is neither the owner nor a
  collaborator gets \<open>false\<close>, or \<open>undefined\<close> when the playlist is collaborative; a
  collaborator other than the owner whose role is viewer gets \<open>false\<close>.
\<close>

lemma canEdit_stored_owner_stranger_viewer:
  "canEdit p (Some (createdBy p)) = Inr (JBool True) \<and>
   (u \<noteq> createdBy p \<and> u \<notin> user ` set (collaborators p) \<longrightarrow>
      canEdit p (Some u) = Inr (if isCollaborative p then JUndefined else JBool False)) \<and>
   (u \<noteq> createdBy p \<and> u \<in> user ` set (collaborators p) \<and>
      (\<forall>c \<in> set (collaborators p). user c = u \<longrightarrow> role c = viewer) \<longrightarrow>
      canEdit p (Some u) = Inr (JBool False))"
proof (intro conjI impI)
  show "canEdit p (Some (createdBy p)) = Inr (JBool True)"
    by (simp add: canEdit_stored)
next
  assume a: "u \<noteq> createdBy p \<and> u \<notin> user ` set (collaborators p)"
  then have "find (\<lambda>c. user c = u) (collaborators p) = None"
    by (simp add: find_user_None)
  with a show "canEdit p (Some u) = Inr (if isCollaborative p then JUndefined else JBool False)"
    by (auto simp: canEdit_stored)
next
  assume a: "u \<noteq> createdBy p \<and> u \<in> user ` set (collaborators p) \<and>
      (\<forall>c \<in> set (collaborators p). user c = u \<longrightarrow> role c = viewer)"
  then obtain c where "find (\<lambda>c. user c = u) (collaborators p) = Some c" "role c = viewer"
    using find_user_viewer by blast
  with a show "canEdit p (Some u) = Inr (JBool False)"
    by (auto simp: canEdit_stored)
qed

text \<open>
  Claim C9. On the playlist that \<^verbatim>\<open>GET /:id\<close> loads, with \<^verbatim>\<open>createdBy\<close> populated,
  \<open>canEdit\<close> called with the owner's id does not return \<open>true\<close>: the text of the populated
  owner is not the text of an id, so the result is \<open>false\<close> on a playlist that is not
  collaborative and \<open>undefined\<close> on one that is, whatever the collaborator list holds.
  The same call on the stored playlist returns \<open>true\<close>.
\<close>

theorem canEdit_populated_owner_refused:
  "canEditOn Populated (p\<lparr>isCollaborative := False\<rparr>) (Some (createdBy p)) = Inr (JBool False) \<and>
   canEditOn Populated (p\<lparr>isCollaborative := True\<rparr>) (Some (createdBy p)) = Inr JUndefined \<and>
   canEditOn Stored p (Some (createdBy p)) = Inr (JBool True)"
  by (simp add: canEditOn_def find_never)

text \<open>
  Claim C2. With no user id (the \<open>undefined\<close> that the routes pass for an anonymous
  visitor) \<open>canEdit\<close> throws a TypeError on every playlist, and \<open>canView\<close> throws it on
  every private playlist; only \<open>canView\<close> on a public playlist returns, with \<open>true\<close>.
\<close>

theorem anonymous_canEdit_canView:
  "canEdit p None = Inl TypeError \<and>
   canView (p\<lparr>isPublic := False\<rparr>) None = Inl TypeError \<and>
   canView (p\<lparr>isPublic := True\<rparr>) None = Inr (JBool True)"
  by (simp add: canEdit_def canView_def canEditOn_def canViewOn_def)

end
